theory Spec2Isabelle
  imports Main
begin

section \<open>JavaScript values\<close>

text \<open>
  A TypeScript value of declared type \<open>T\<close> can be \<open>undefined\<close> or \<open>null\<close> at run time.
  The source tests for both, sometimes with \<open>== null\<close> (true of both) and sometimes
  with \<open>=== null\<close> (true of \<open>null\<close> only, written \<open>x = Null\<close> below), so the
  model keeps the two apart.
  Strings are lists of 8-bit characters: one \<open>char\<close> per UTF-16 code unit below 256.
\<close>

datatype 'a nullable = Undefined | Null | Val 'a

type_synonym jsstring = "string nullable"

text \<open>\<open>x == null\<close>\<close>

fun looseNull :: "'a nullable \<Rightarrow> bool" where
  "looseNull (Val _) = False"
| "looseNull _ = True"

text \<open>A string value interpolated into a template literal: \<open>`${x}`\<close>.\<close>

fun str :: "jsstring \<Rightarrow> string" where
  "str Undefined = ''undefined''"
| "str Null = ''null''"
| "str (Val s) = s"

section \<open>The fragment of ECMAScript regular expressions the source uses\<close>

text \<open>
  The source builds two regular expressions: the discovery pattern of
  \<open>getAllGitArtifacts\<close> and the search pattern of \<open>generateRef\<close>, whose default is
  \<open>\s+\<close>. The model covers patterns made of literal characters, \<open>.\<close>, \<open>\s\<close>, escaped
  syntax characters, the greedy quantifiers \<open>*\<close> and \<open>+\<close> on a single character
  matcher, and at most one capture group that is neither nested nor quantified;
  flags \<open>g\<close> and \<open>i\<close>. Everything else (alternation, classes, anchors, lazy
  quantifiers, other flags, and the patterns \<open>new RegExp\<close> rejects) is outside the
  fragment: parsing returns \<open>None\<close>.
\<close>

datatype cls = Lit char | AnyChar | Space

datatype quant = One | Star | Plus

datatype lexeme = LAtom cls | LStar | LPlus | LOpen | LClose | LBad

datatype tok = TOpen | TClose | TPiece cls quant

definition backslash :: char where
  "backslash = CHR 0x5C"

definition syntaxChars :: string where
  "syntaxChars = backslash # ''^$.*+?()[]{}|''"

definition escape :: "char \<Rightarrow> cls option" where
  "escape d = (if d = CHR ''s'' then Some Space
               else if d \<in> set syntaxChars then Some (Lit d)
               else None)"

definition classify :: "char \<Rightarrow> lexeme" where
  "classify c = (if c = CHR ''.'' then LAtom AnyChar
                 else if c = CHR ''*'' then LStar
                 else if c = CHR ''+'' then LPlus
                 else if c = CHR ''('' then LOpen
                 else if c = CHR '')'' then LClose
                 else if c \<in> set syntaxChars then LBad
                 else LAtom (Lit c))"

fun lex :: "string \<Rightarrow> lexeme list option" where
  "lex [] = Some []"
| "lex [c] = (if c = backslash then None else Some [classify c])"
| "lex (c # d # ds) =
     (if c = backslash
      then (case escape d of
              None \<Rightarrow> None
            | Some a \<Rightarrow> map_option (Cons (LAtom a)) (lex ds))
      else map_option (Cons (classify c)) (lex (d # ds)))"

text \<open>\<open>inGroup\<close>: inside the capture group; \<open>seen\<close>: a group was already opened.\<close>

fun toks_of :: "bool \<Rightarrow> bool \<Rightarrow> lexeme list \<Rightarrow> tok list option" where
  "toks_of inGroup seen [] = (if inGroup then None else Some [])"
| "toks_of inGroup seen (LAtom a # LStar # ls) =
     map_option (Cons (TPiece a Star)) (toks_of inGroup seen ls)"
| "toks_of inGroup seen (LAtom a # LPlus # ls) =
     map_option (Cons (TPiece a Plus)) (toks_of inGroup seen ls)"
| "toks_of inGroup seen (LAtom a # ls) =
     map_option (Cons (TPiece a One)) (toks_of inGroup seen ls)"
| "toks_of inGroup seen (LOpen # ls) =
     (if inGroup \<or> seen then None
      else map_option (Cons TOpen) (toks_of True True ls))"
| "toks_of inGroup seen (LClose # LStar # ls) = None"
| "toks_of inGroup seen (LClose # LPlus # ls) = None"
| "toks_of inGroup seen (LClose # ls) =
     (if inGroup then map_option (Cons TClose) (toks_of False seen ls) else None)"
| "toks_of inGroup seen (_ # ls) = None"

record regexp =
  toks :: "tok list"
  global :: bool
  ignoreCase :: bool

text \<open>\<open>new RegExp(pattern, flags)\<close>, on the fragment.\<close>

definition newRegExp :: "string \<Rightarrow> string \<Rightarrow> regexp option" where
  "newRegExp pattern flags =
     (if distinct flags \<and> list_all (\<lambda>c. c = CHR ''g'' \<or> c = CHR ''i'') flags
      then (case lex pattern of
              None \<Rightarrow> None
            | Some ls \<Rightarrow>
                (case toks_of False False ls of
                   None \<Rightarrow> None
                 | Some ts \<Rightarrow>
                     Some \<lparr>toks = ts, global = (CHR ''g'' \<in> set flags),
                           ignoreCase = (CHR ''i'' \<in> set flags)\<rparr>))
      else None)"

text \<open>
  Canonicalize of the specification (non-Unicode mode), on code units below 256:
  \<open>toUpperCase\<close> moves a-z and the accented lower-case letters 0xE0-0xFE (0xF7, the
  division sign, apart) down by 0x20; 0xB5 and 0xFF go to code units above 255 that
  no other character below 256 reaches, and 0xDF has a two-character upper case, so
  the three compare like themselves.
\<close>

definition canonicalize :: "bool \<Rightarrow> char \<Rightarrow> char" where
  "canonicalize ic c =
     (let n = (of_char c :: nat)
      in if ic \<and> ((97 \<le> n \<and> n \<le> 122) \<or> (224 \<le> n \<and> n \<le> 254 \<and> n \<noteq> 247))
         then char_of (n - 32) else c)"

text \<open>White space and line terminators below 256: TAB, LF, VT, FF, CR, SP, NBSP.\<close>

definition isSpace :: "char \<Rightarrow> bool" where
  "isSpace c = ((of_char c :: nat) \<in> {9, 10, 11, 12, 13, 32, 160})"

definition isLineTerminator :: "char \<Rightarrow> bool" where
  "isLineTerminator c = ((of_char c :: nat) \<in> {10, 13})"

fun accepts :: "bool \<Rightarrow> cls \<Rightarrow> char \<Rightarrow> bool" where
  "accepts ic (Lit c) x = (canonicalize ic c = canonicalize ic x)"
| "accepts ic AnyChar x = (\<not> isLineTerminator x)"
| "accepts ic Space x = isSpace x"

text \<open>
  The backtracking matcher at one start position. \<open>n\<close> counts the characters
  consumed so far, \<open>opened\<close> is where the group opened, \<open>cap\<close> the group's extent
  (both relative to the start). A greedy quantifier takes the longest run first
  and gives characters back one at a time. The result is the length of the match
  and the extent of the group.
\<close>

fun bt :: "bool \<Rightarrow> tok list \<Rightarrow> string \<Rightarrow> nat \<Rightarrow> nat option \<Rightarrow> (nat \<times> nat) option
           \<Rightarrow> (nat \<times> (nat \<times> nat) option) option" where
  "bt ic [] s n opened cap = Some (n, cap)"
| "bt ic (TOpen # ts) s n opened cap = bt ic ts s n (Some n) cap"
| "bt ic (TClose # ts) s n opened cap =
     bt ic ts s n opened (case opened of None \<Rightarrow> cap | Some b \<Rightarrow> Some (b, n))"
| "bt ic (TPiece c One # ts) [] n opened cap = None"
| "bt ic (TPiece c One # ts) (x # xs) n opened cap =
     (if accepts ic c x then bt ic ts xs (Suc n) opened cap else None)"
| "bt ic (TPiece c Plus # ts) [] n opened cap = None"
| "bt ic (TPiece c Plus # ts) (x # xs) n opened cap =
     (if accepts ic c x then bt ic (TPiece c Star # ts) xs (Suc n) opened cap else None)"
| "bt ic (TPiece c Star # ts) [] n opened cap = bt ic ts [] n opened cap"
| "bt ic (TPiece c Star # ts) (x # xs) n opened cap =
     (if accepts ic c x
      then (case bt ic (TPiece c Star # ts) xs (Suc n) opened cap of
              Some r \<Rightarrow> Some r
            | None \<Rightarrow> bt ic ts (x # xs) n opened cap)
      else bt ic ts (x # xs) n opened cap)"

text \<open>The leftmost match in \<open>s\<close>: (characters skipped, length, group extent).\<close>

fun search :: "bool \<Rightarrow> tok list \<Rightarrow> string \<Rightarrow> (nat \<times> nat \<times> (nat \<times> nat) option) option" where
  "search ic ts [] = map_option (Pair 0) (bt ic ts [] 0 None None)"
| "search ic ts (x # xs) =
     (case bt ic ts (x # xs) 0 None None of
        Some r \<Rightarrow> Some (0, r)
      | None \<Rightarrow> map_option (\<lambda>(k, r). (Suc k, r)) (search ic ts xs))"

record match =
  m_index :: nat
  m_group1 :: jsstring

text \<open>
  \<open>regexp.exec(s)\<close> (RegExpBuiltinExec). The regular expression object carries
  \<open>lastIndex\<close>; with the \<open>g\<close> flag the search starts there, a match moves it to
  the end of the match and a failure resets it to 0. Without \<open>g\<close> the search starts
  at 0 and \<open>lastIndex\<close> is left alone. Returns the match and the new \<open>lastIndex\<close>.
\<close>

definition exec :: "regexp \<Rightarrow> nat \<Rightarrow> string \<Rightarrow> match option \<times> nat" where
  "exec re lastIndex s =
     (let li = (if global re then lastIndex else 0)
      in if li > length s then (None, if global re then 0 else lastIndex)
         else (case search (ignoreCase re) (toks re) (drop li s) of
                 None \<Rightarrow> (None, if global re then 0 else lastIndex)
               | Some (k, n, cap) \<Rightarrow>
                   (Some \<lparr>m_index = li + k,
                          m_group1 = (case cap of
                                        None \<Rightarrow> Undefined
                                      | Some (a, b) \<Rightarrow> Val (take (b - a) (drop (li + k + a) s)))\<rparr>,
                    if global re then li + k + n else lastIndex)))"

text \<open>
  \<open>s.replace(regex, replacement)\<close> for a freshly built regular expression
  (\<open>lastIndex = 0\<close>) and a replacement without \<open>$\<close> patterns. With \<open>g\<close> every match
  is replaced, and after an empty match the search moves on by one character;
  without \<open>g\<close> only the first match is.
\<close>

fun replaceAll :: "bool \<Rightarrow> tok list \<Rightarrow> string \<Rightarrow> string \<Rightarrow> string" where
  "replaceAll ic ts rep [] = (case bt ic ts [] 0 None None of Some _ \<Rightarrow> rep | None \<Rightarrow> [])"
| "replaceAll ic ts rep (x # xs) =
     (case bt ic ts (x # xs) 0 None None of
        None \<Rightarrow> x # replaceAll ic ts rep xs
      | Some (n, _) \<Rightarrow>
          if n = 0 then rep @ x # replaceAll ic ts rep xs
          else rep @ replaceAll ic ts rep (drop (n - 1) xs))"

fun replaceFirst :: "bool \<Rightarrow> tok list \<Rightarrow> string \<Rightarrow> string \<Rightarrow> string" where
  "replaceFirst ic ts rep [] = (case bt ic ts [] 0 None None of Some _ \<Rightarrow> rep | None \<Rightarrow> [])"
| "replaceFirst ic ts rep (x # xs) =
     (case bt ic ts (x # xs) 0 None None of
        None \<Rightarrow> x # replaceFirst ic ts rep xs
      | Some (n, _) \<Rightarrow> rep @ drop n (x # xs))"

definition replace :: "string \<Rightarrow> regexp \<Rightarrow> string \<Rightarrow> string option" where
  "replace s re replacement =
     (if CHR ''$'' \<in> set replacement then None
      else Some ((if global re then replaceAll else replaceFirst)
                   (ignoreCase re) (toks re) replacement s))"

section \<open>Data\<close>

text \<open>
  \<open>IArtifactData\<close>. Its \<open>name\<close> is \<open>match[1]\<close> and its \<open>commit\<close> the result of
  \<open>tl.getVariable\<close>, either of which can be \<open>undefined\<close>; \<open>repositoryId\<close> has passed
  the test \<open>repositoryId == null\<close> and is a string.
\<close>

record IArtifactData =
  name :: jsstring
  commit :: jsstring
  repositoryId :: string

record GitRefUpdate =
  isLocked :: bool
  upd_name :: string
  newObjectId :: jsstring
  oldObjectId :: string
  upd_repositoryId :: string

text \<open>
  The two statuses the source names, and any other status by its number in the
  client library's enumeration (where the two named ones are 8 and 9); the number
  only shows in the text of the failure message.
\<close>

datatype GitRefUpdateStatus =
  CreateBranchPermissionRequired | CreateTagPermissionRequired | OtherStatus nat

fun statusNumber :: "GitRefUpdateStatus \<Rightarrow> nat" where
  "statusNumber CreateBranchPermissionRequired = 8"
| "statusNumber CreateTagPermissionRequired = 9"
| "statusNumber (OtherStatus n) = n"

record GitRefUpdateResult =
  success :: bool
  updateStatus :: GitRefUpdateStatus
  res_repositoryId :: jsstring
  res_newObjectId :: jsstring

record GitRef =
  ref_name :: string
  objectId :: string

record GitRepository =
  repo_id :: jsstring

record Build =
  repository :: "GitRepository nullable"

text \<open>
  What can be thrown: a \<open>TypeError\<close> of the source's own property reads, the
  rejection of a collaborator's promise, and, for the model only, a regular
  expression outside the fragment above. Each carries its \<open>message\<close>.
\<close>

datatype error = TypeError string | Rejected string | OutsideFragment

fun message :: "error \<Rightarrow> string" where
  "message (TypeError m) = m"
| "message (Rejected m) = m"
| "message OutsideFragment = ''regular expression outside the modelled fragment''"

section \<open>Effects and collaborators\<close>

text \<open>
  Everything the task does to the outside, in order: the lines it logs through the
  task library, \<open>tl.setResult(tl.TaskResult.Failed, msg)\<close>, and the calls it makes
  to the version-control and build clients with their arguments.
  \<open>GetBuild b\<close> is the call \<open>bldapi.getBuild(Number(b))\<close>.
\<close>

datatype effect =
    Debug string
  | Warning string
  | Error string
  | SetResultFailed string
  | UpdateRefs "GitRefUpdate list" string
  | GetRefs string
  | GetBuild jsstring

text \<open>
  The collaborators are parameters. The configuration reader is read-only;
  \<open>connect\<close> is the outcome of lines 24-30 of \<open>run\<close> (reading the endpoint and
  building the two clients), which either throws or succeeds. The clients act on
  an external world \<open>'w\<close>: a call returns a rejection or a value, and the new world.
\<close>

record 'w collaborators =
  getVariables :: "(string \<times> jsstring) list"
  getVariable :: "string \<Rightarrow> jsstring"
  getInput :: "string \<Rightarrow> jsstring"
  connect :: "error option"
  updateRefs :: "GitRefUpdate list \<Rightarrow> string \<Rightarrow> 'w
                 \<Rightarrow> (error + GitRefUpdateResult list nullable) \<times> 'w"
  getRefs :: "string \<Rightarrow> 'w \<Rightarrow> (error + GitRef list nullable) \<times> 'w"
  getBuild :: "jsstring \<Rightarrow> 'w \<Rightarrow> (error + Build nullable) \<times> 'w"

record 'w task_state =
  trace :: "effect list"
  world :: 'w

definition init :: "'w \<Rightarrow> 'w task_state" where
  "init w = \<lparr>trace = [], world = w\<rparr>"

definition emit :: "effect \<Rightarrow> 'w task_state \<Rightarrow> 'w task_state" where
  "emit e st = st\<lparr>trace := trace st @ [e]\<rparr>"

text \<open>A client call: the effect is recorded and the world replaced.\<close>

definition called :: "effect \<Rightarrow> 'w \<Rightarrow> 'w task_state \<Rightarrow> 'w task_state" where
  "called e w st = \<lparr>trace = trace st @ [e], world = w\<rparr>"

section \<open>The class GitRefCreator\<close>

definition defaultSearchPattern :: string where
  "defaultSearchPattern = [backslash, CHR ''s'', CHR ''+'']"

definition defaultRegexFlags :: string where
  "defaultRegexFlags = ''g''"

definition defaultReplacePattern :: string where
  "defaultReplacePattern = []"

definition permissionTemplate :: string where
  "permissionTemplate = ''You must grant the build account access to permission: ''"

definition apostrophe :: string where
  "apostrophe = [CHR 0x27]"

text \<open>\<open>value != null\<close> holds of a string only.\<close>

definition getInputOrDefault :: "'w collaborators \<Rightarrow> string \<Rightarrow> string \<Rightarrow> string" where
  "getInputOrDefault C inputName defaultValue =
     (case getInput C inputName of Val v \<Rightarrow> v | _ \<Rightarrow> defaultValue)"

definition generateRef ::
  "'w collaborators \<Rightarrow> string \<Rightarrow> string \<Rightarrow> 'w task_state \<Rightarrow> (error + string) \<times> 'w task_state" where
  "generateRef C releaseName prefix st =
     (let searchRegex = getInputOrDefault C ''searchRegex'' defaultSearchPattern;
          regexFlags = getInputOrDefault C ''regexFlags'' defaultRegexFlags;
          replacePattern = getInputOrDefault C ''replacePattern'' defaultReplacePattern;
          st1 = emit (Debug (''Search Regex: '' @ apostrophe @ searchRegex @ apostrophe
                  @ '', Replace Pattern: '' @ apostrophe @ replacePattern @ apostrophe
                  @ '', flags: '' @ apostrophe @ regexFlags @ apostrophe)) st
      in case newRegExp searchRegex regexFlags of
           None \<Rightarrow> (Inl OutsideFragment, st1)
         | Some regex \<Rightarrow>
             (case replace releaseName regex replacePattern of
                None \<Rightarrow> (Inl OutsideFragment, st1)
              | Some replaced \<Rightarrow>
                  (let refName = prefix @ replaced
                   in (Inr refName,
                       emit (Debug (''RefName: '' @ apostrophe @ refName @ apostrophe)) st1))))"

text \<open>
  Reading a property of \<open>null\<close> or \<open>undefined\<close> throws a \<open>TypeError\<close>; the wording of
  its message is the engine's and plays no part below.
\<close>

definition nullRead :: "string \<Rightarrow> string \<Rightarrow> error" where
  "nullRead prop v =
     TypeError (''Cannot read property '' @ apostrophe @ prop @ apostrophe @ '' of '' @ v)"

definition getRepositoryIdFromBuildNumber ::
  "'w collaborators \<Rightarrow> jsstring \<Rightarrow> 'w task_state \<Rightarrow> (error + jsstring) \<times> 'w task_state" where
  "getRepositoryIdFromBuildNumber C artifactName st =
     (let buildidVariable = ''RELEASE.ARTIFACTS.'' @ str artifactName @ ''.BUILDID'';
          buildid = getVariable C buildidVariable
      in if buildid = Null \<or> buildid = Val []
         then (Inr Null,
               emit (SetResultFailed (''Unable to get build id from variable: '' @ buildidVariable)) st)
         else (case getBuild C buildid (world st) of
                 (r, w) \<Rightarrow>
                   (let st1 = called (GetBuild buildid) w st
                    in case r of
                         Inl e \<Rightarrow> (Inl e, st1)
                       | Inr Undefined \<Rightarrow> (Inl (nullRead ''repository'' ''undefined''), st1)
                       | Inr Null \<Rightarrow> (Inl (nullRead ''repository'' ''null''), st1)
                       | Inr (Val build) \<Rightarrow>
                           (case repository build of
                              Undefined \<Rightarrow> (Inl (nullRead ''id'' ''undefined''), st1)
                            | Null \<Rightarrow> (Inl (nullRead ''id'' ''null''), st1)
                            | Val repo \<Rightarrow>
                                (Inr (repo_id repo),
                                 emit (Debug (''Got repositoryid: '' @ str (repo_id repo))) st1)))))"

definition getRepositoryId ::
  "'w collaborators \<Rightarrow> jsstring \<Rightarrow> 'w task_state \<Rightarrow> (error + jsstring) \<times> 'w task_state" where
  "getRepositoryId C artifactName st =
     (let repoId = getVariable C (''RELEASE.ARTIFACTS.'' @ str artifactName @ ''.REPOSITORY_ID'')
      in if \<not> looseNull repoId \<and> repoId \<noteq> Val []
         then (Inr repoId, st)
         else getRepositoryIdFromBuildNumber C artifactName st)"

text \<open>
  The loop of \<open>getAllGitArtifacts\<close> over \<open>tl.getVariables()\<close>. The regular expression
  object is created once, before the loop, so its \<open>lastIndex\<close> is carried from one
  variable to the next, along with the array built so far. (The source's locals
  \<open>name\<close> and \<open>repositoryId\<close> are \<open>artifactName\<close> and \<open>repoId\<close> here, the record
  fields having taken the names.)
\<close>

fun scanVariables ::
  "'w collaborators \<Rightarrow> regexp \<Rightarrow> (string \<times> jsstring) list \<Rightarrow> nat \<Rightarrow> IArtifactData list
     \<Rightarrow> 'w task_state \<Rightarrow> (error + IArtifactData list) \<times> 'w task_state" where
  "scanVariables C regexp [] lastIndex artifactNames st = (Inr artifactNames, st)"
| "scanVariables C regexp ((vname, vvalue) # vs) lastIndex artifactNames st =
     (case exec regexp lastIndex vname of
        (None, lastIndex') \<Rightarrow>
          scanVariables C regexp vs lastIndex' artifactNames
            (emit (Debug (''No match for variable: '' @ vname)) st)
      | (Some m, lastIndex') \<Rightarrow>
          if vvalue \<noteq> Val ''TfsGit'' \<and> vvalue \<noteq> Val ''Git''
          then scanVariables C regexp vs lastIndex' artifactNames
                 (emit (Debug (''Matching variable:  '' @ vname @ '', but artifact type: ''
                          @ str vvalue)) st)
          else (let artifactName = m_group1 m;
                    st1 = emit (Debug (''Getting repository id for artifact: '' @ str artifactName)) st
                in case getRepositoryId C artifactName st1 of
                     (Inl e, st2) \<Rightarrow> (Inl e, st2)
                   | (Inr (Val repoId), st2) \<Rightarrow>
                       scanVariables C regexp vs lastIndex'
                         (artifactNames @
                            [\<lparr>name = artifactName,
                              commit = getVariable C
                                (''RELEASE.ARTIFACTS.'' @ str artifactName @ ''.SOURCEVERSION''),
                              repositoryId = repoId\<rparr>])
                         st2
                   | (Inr _, st2) \<Rightarrow> scanVariables C regexp vs lastIndex' artifactNames st2))"

text \<open>
  The pattern is written in the source as an ordinary string literal,
  \<open>"RELEASE\.ARTIFACTS\.(.*)\.REPOSITORY\.PROVIDER"\<close>, in which \<open>\.\<close> denotes the
  character \<open>.\<close>: the regular expression receives unescaped dots.
\<close>

definition discoveryPattern :: string where
  "discoveryPattern = ''RELEASE.ARTIFACTS.(.*).REPOSITORY.PROVIDER''"

definition getAllGitArtifacts ::
  "'w collaborators \<Rightarrow> 'w task_state \<Rightarrow> (error + IArtifactData list) \<times> 'w task_state" where
  "getAllGitArtifacts C st =
     (case newRegExp discoveryPattern ''gi'' of
        None \<Rightarrow> (Inl OutsideFragment, st)
      | Some regexp \<Rightarrow> scanVariables C regexp (getVariables C) 0 [] st)"

definition zeroObjectId :: string where
  "zeroObjectId = ''0000000000000000000000000000000000000000''"

text \<open>The object literal of lines 180-186.\<close>

definition refUpdate :: "IArtifactData \<Rightarrow> string \<Rightarrow> GitRefUpdate" where
  "refUpdate artifact refName =
     \<lparr>isLocked = False, upd_name = refName, newObjectId = commit artifact,
      oldObjectId = zeroObjectId, upd_repositoryId = repositoryId artifact\<rparr>"

definition updateRef ::
  "'w collaborators \<Rightarrow> IArtifactData \<Rightarrow> string \<Rightarrow> 'w task_state
     \<Rightarrow> (error + GitRefUpdateResult nullable) \<times> 'w task_state" where
  "updateRef C artifact refName st =
     (let ref = refUpdate artifact refName;
          refArray = [ref]
      in case updateRefs C refArray (repositoryId artifact) (world st) of
           (r, w) \<Rightarrow>
             (let st1 = called (UpdateRefs refArray (repositoryId artifact)) w st
              in case r of
                   Inl e \<Rightarrow> (Inl e, st1)
                 | Inr (Val (first # _)) \<Rightarrow> (Inr (Val first), st1)
                 | Inr _ \<Rightarrow>
                     (Inr Null, emit (Warning ''No update result returned from updateRefs'') st1)))"

definition doesRefExist ::
  "'w collaborators \<Rightarrow> IArtifactData \<Rightarrow> string \<Rightarrow> 'w task_state
     \<Rightarrow> (error + bool) \<times> 'w task_state" where
  "doesRefExist C artifact refName st =
     (case getRefs C (repositoryId artifact) (world st) of
        (r, w) \<Rightarrow>
          (let st1 = called (GetRefs (repositoryId artifact)) w st
           in case r of
                Inl e \<Rightarrow> (Inl e, st1)
              | Inr (Val refs) \<Rightarrow>
                  (case find (\<lambda>x. ref_name x = refName) refs of
                     None \<Rightarrow> (Inr False, st1)
                   | Some foundRef \<Rightarrow>
                       if Val (objectId foundRef) = commit artifact
                       then (Inr True, emit (Debug ''Found matching ref for commit.'') st1)
                       else (Inr False,
                             emit (Warning (''Ref exists, but on different commit. New commit: ''
                                     @ str (commit artifact) @ '' Old Commit: ''
                                     @ objectId foundRef)) st1))
              | Inr _ \<Rightarrow> (Inr False, st1)))"

text \<open>Decimal digits of a number, as a template literal prints it.\<close>

function decimal :: "nat \<Rightarrow> string" where
  "decimal n = (if n < 10 then [char_of (48 + n)]
                else decimal (n div 10) @ [char_of (48 + n mod 10)])"
  by pat_completeness auto
termination
  by (relation "measure id") auto

declare decimal.simps [simp del]

text \<open>
  \<open>this.refName\<close> is an abstract getter of the class; the model takes its value as
  the parameter \<open>refName\<close>.
\<close>

definition failureMessage :: "string \<Rightarrow> GitRefUpdateResult \<Rightarrow> string" where
  "failureMessage refName updateResult =
     ''Unable to create ref: '' @ refName
       @ '' UpdateStatus: '' @ decimal (statusNumber (updateStatus updateResult))
       @ '' RepositoryId: '' @ str (res_repositoryId updateResult)
       @ '' Commit: '' @ str (res_newObjectId updateResult)"

definition permissionsPointer :: "IArtifactData \<Rightarrow> string" where
  "permissionsPointer artifact =
     ''If you need to change permissions see: _admin/_versioncontrol?_a=security&repositoryId=''
       @ repositoryId artifact"

text \<open>The debug line of line 133.\<close>

definition processingLine :: "string \<Rightarrow> IArtifactData \<Rightarrow> effect" where
  "processingLine refName artifact =
     Debug (''Processing artifact: '' @ apostrophe @ str (name artifact) @ apostrophe
            @ '' for ref: '' @ refName @ '' new commit: '' @ str (commit artifact))"

text \<open>The \<open>switch\<close> of lines 147-154.\<close>

definition permissionError :: "GitRefUpdateStatus \<Rightarrow> 'w task_state \<Rightarrow> 'w task_state" where
  "permissionError status st =
     (case status of
        CreateBranchPermissionRequired \<Rightarrow>
          emit (Error (permissionTemplate @ ''Create Branch'')) st
      | CreateTagPermissionRequired \<Rightarrow>
          emit (Error (permissionTemplate @ ''Create Tag'')) st
      | OtherStatus _ \<Rightarrow> st)"

definition processArtifact ::
  "'w collaborators \<Rightarrow> string \<Rightarrow> IArtifactData \<Rightarrow> 'w task_state
     \<Rightarrow> (error + unit) \<times> 'w task_state" where
  "processArtifact C refName artifact st =
     (case updateRef C artifact refName (emit (processingLine refName artifact) st) of
        (Inl e, st1) \<Rightarrow> (Inl e, st1)
      | (Inr Undefined, st1) \<Rightarrow> (Inl (nullRead ''success'' ''undefined''), st1)
      | (Inr Null, st1) \<Rightarrow> (Inl (nullRead ''success'' ''null''), st1)
      | (Inr (Val updateResult), st1) \<Rightarrow>
          if success updateResult then (Inr (), emit (Debug ''Ref updated!'') st1)
          else (case doesRefExist C artifact refName st1 of
                  (Inl e, st2) \<Rightarrow> (Inl e, st2)
                | (Inr True, st2) \<Rightarrow> (Inr (), st2)
                | (Inr False, st2) \<Rightarrow>
                    (let st3 = permissionError (updateStatus updateResult) st2;
                         st4 = emit (Error (permissionsPointer artifact)) st3
                     in (Inr (),
                         emit (SetResultFailed (failureMessage refName updateResult)) st4))))"

text \<open>The \<open>for\<close> loop of \<open>run\<close>: an exception leaves the loop.\<close>

fun processAll ::
  "'w collaborators \<Rightarrow> string \<Rightarrow> IArtifactData list \<Rightarrow> 'w task_state
     \<Rightarrow> (error + unit) \<times> 'w task_state" where
  "processAll C refName [] st = (Inr (), st)"
| "processAll C refName (artifact # rest) st =
     (case processArtifact C refName artifact st of
        (Inl e, st1) \<Rightarrow> (Inl e, st1)
      | (Inr _, st1) \<Rightarrow> processAll C refName rest st1)"

text \<open>The \<open>try\<close> block of \<open>run\<close>.\<close>

definition runBody ::
  "'w collaborators \<Rightarrow> string \<Rightarrow> 'w task_state \<Rightarrow> (error + unit) \<times> 'w task_state" where
  "runBody C refName st =
     (case connect C of
        Some e \<Rightarrow> (Inl e, st)
      | None \<Rightarrow>
          (case getAllGitArtifacts C st of
             (Inl e, st1) \<Rightarrow> (Inl e, st1)
           | (Inr artifactData, st1) \<Rightarrow>
               processAll C refName artifactData
                 (if length artifactData = 0
                  then emit (Warning ''No TfsGit artifacts found.'') st1 else st1)))"

text \<open>\<open>run\<close>: the \<open>catch\<close> turns any exception into a failed task result.\<close>

definition run :: "'w collaborators \<Rightarrow> string \<Rightarrow> 'w task_state \<Rightarrow> 'w task_state" where
  "run C refName st =
     (case runBody C refName st of
        (Inl err, st1) \<Rightarrow> emit (SetResultFailed (message err)) st1
      | (Inr _, st1) \<Rightarrow> st1)"

section \<open>Concrete collaborators and inputs\<close>

text \<open>
  The configuration reader over an association list: a variable that is not set
  reads as \<open>undefined\<close>, as a look-up in the process environment does.
\<close>

definition fromList :: "(string \<times> string) list \<Rightarrow> string \<Rightarrow> jsstring" where
  "fromList kvs k = (case map_of kvs k of None \<Rightarrow> Undefined | Some v \<Rightarrow> Val v)"

text \<open>
  A version-control server holding the refs of one repository. A create request
  (old object id all zero) succeeds when the server grants it and no ref of that
  name exists, and then adds the ref; otherwise it is refused with the given
  status and the refs stay as they are. The build service knows no build.
\<close>

definition serverUpdateRefs ::
  "GitRefUpdateStatus option \<Rightarrow> GitRefUpdate list \<Rightarrow> string \<Rightarrow> GitRef list
     \<Rightarrow> (error + GitRefUpdateResult list nullable) \<times> GitRef list" where
  "serverUpdateRefs refusal reqs rid refs =
     (case reqs of
        [] \<Rightarrow> (Inr (Val []), refs)
      | r # _ \<Rightarrow>
          (case (refusal, newObjectId r, find (\<lambda>x. ref_name x = upd_name r) refs) of
             (None, Val c, None) \<Rightarrow>
               (Inr (Val [\<lparr>success = True, updateStatus = OtherStatus 0,
                           res_repositoryId = Val rid, res_newObjectId = Val c\<rparr>]),
                refs @ [\<lparr>ref_name = upd_name r, objectId = c\<rparr>])
           | (None, c, _) \<Rightarrow>
               (Inr (Val [\<lparr>success = False, updateStatus = OtherStatus 2,
                           res_repositoryId = Val rid, res_newObjectId = c\<rparr>]), refs)
           | (Some status, c, _) \<Rightarrow>
               (Inr (Val [\<lparr>success = False, updateStatus = status,
                           res_repositoryId = Val rid, res_newObjectId = c\<rparr>]), refs)))"

definition server ::
  "GitRefUpdateStatus option \<Rightarrow> (string \<times> jsstring) list \<Rightarrow> (string \<times> string) list
     \<Rightarrow> (GitRef list) collaborators" where
  "server refusal vars kvs =
     \<lparr>getVariables = vars, getVariable = fromList kvs, getInput = (\<lambda>_. Undefined),
      connect = None,
      updateRefs = serverUpdateRefs refusal,
      getRefs = (\<lambda>rid refs. (Inr (Val refs), refs)),
      getBuild = (\<lambda>b refs. (Inl (Rejected ''Build not found''), refs))\<rparr>"

definition artifactA :: IArtifactData where
  "artifactA = \<lparr>name = Val ''A'', commit = Val ''c1'', repositoryId = ''repoA''\<rparr>"

definition twoArtifacts :: "(string \<times> jsstring) list" where
  "twoArtifacts =
     [(''RELEASE.ARTIFACTS.A.REPOSITORY.PROVIDER'', Val ''Git''),
      (''RELEASE.ARTIFACTS.A.SOURCEVERSION'', Val ''c1''),
      (''RELEASE.ARTIFACTS.B.REPOSITORY.PROVIDER'', Val ''Git''),
      (''RELEASE.ARTIFACTS.B.SOURCEVERSION'', Val ''c2'')]"

definition adjacentArtifacts :: "(string \<times> jsstring) list" where
  "adjacentArtifacts =
     [(''RELEASE.ARTIFACTS.A.REPOSITORY.PROVIDER'', Val ''Git''),
      (''RELEASE.ARTIFACTS.B.REPOSITORY.PROVIDER'', Val ''Git'')]"

definition bothResolved :: "(string \<times> string) list" where
  "bothResolved =
     [(''RELEASE.ARTIFACTS.A.REPOSITORY_ID'', ''repoA''),
      (''RELEASE.ARTIFACTS.A.SOURCEVERSION'', ''c1''),
      (''RELEASE.ARTIFACTS.B.REPOSITORY_ID'', ''repoB''),
      (''RELEASE.ARTIFACTS.B.SOURCEVERSION'', ''c2'')]"

definition onlyBResolved :: "(string \<times> string) list" where
  "onlyBResolved =
     [(''RELEASE.ARTIFACTS.A.SOURCEVERSION'', ''c1''),
      (''RELEASE.ARTIFACTS.B.REPOSITORY_ID'', ''repoB''),
      (''RELEASE.ARTIFACTS.B.SOURCEVERSION'', ''c2'')]"

text \<open>A server whose \<open>updateRefs\<close> answers with an empty array.\<close>

definition silentServer :: "(GitRef list) collaborators" where
  "silentServer =
     (server None twoArtifacts bothResolved)\<lparr>updateRefs := (\<lambda>reqs rid refs. (Inr (Val []), refs))\<rparr>"

text \<open>A server whose \<open>getRefs\<close> answers \<open>null\<close>.\<close>

definition noListingServer :: "(GitRef list) collaborators" where
  "noListingServer =
     (server (Some CreateTagPermissionRequired) [] [])\<lparr>getRefs := (\<lambda>rid refs. (Inr Null, refs))\<rparr>"

text \<open>A repository where the tag already points at another commit.\<close>

definition divergedRefs :: "GitRef list" where
  "divergedRefs = [\<lparr>ref_name = ''refs/tags/v1'', objectId = ''c0''\<rparr>]"

text \<open>
  The object \<open>new RegExp\<close> builds for the discovery pattern: every dot is the
  wildcard, the group is a greedy \<open>.*\<close>, and nothing anchors the match.
\<close>

definition wild :: "char \<Rightarrow> cls" where
  "wild c = (if c = CHR ''.'' then AnyChar else Lit c)"

definition discoveryRegexp :: regexp where
  "discoveryRegexp =
     \<lparr>toks = map (\<lambda>c. TPiece c One) (map wild ''RELEASE.ARTIFACTS.'')
             @ TOpen # TPiece AnyChar Star # TClose
             # map (\<lambda>c. TPiece c One) (map wild ''.REPOSITORY.PROVIDER''),
      global = True, ignoreCase = True\<rparr>"

text \<open>One artifact whose \<open>SOURCEVERSION\<close> variable is not set.\<close>

definition noCommit :: "(GitRef list) collaborators" where
  "noCommit =
     server None [(''RELEASE.ARTIFACTS.A.REPOSITORY.PROVIDER'', Val ''TfsGit'')]
       [(''RELEASE.ARTIFACTS.A.REPOSITORY_ID'', ''repoA'')]"

text \<open>
  Artifacts A and B, provider variables one after the other, each with a
  repository id and neither with a \<open>SOURCEVERSION\<close>.
\<close>

definition adjacentNoCommits :: "(GitRef list) collaborators" where
  "adjacentNoCommits =
     server None adjacentArtifacts
       [(''RELEASE.ARTIFACTS.A.REPOSITORY_ID'', ''repoA''),
        (''RELEASE.ARTIFACTS.B.REPOSITORY_ID'', ''repoB'')]"

text \<open>
  The same configuration with other commits: a variable whose name ends in
  \<open>.SOURCEVERSION\<close> reads as \<open>g\<close> says, every other variable as before.
\<close>

definition isCommitKey :: "string \<Rightarrow> bool" where
  "isCommitKey k = (take 14 (rev k) = rev ''.SOURCEVERSION'')"

definition withCommits :: "(string \<Rightarrow> jsstring) \<Rightarrow> 'w collaborators \<Rightarrow> 'w collaborators" where
  "withCommits g C = C\<lparr>getVariable := (\<lambda>k. if isCommitKey k then g k else getVariable C k)\<rparr>"

text \<open>An artifact without its commit.\<close>

definition nameAndRepository :: "IArtifactData \<Rightarrow> jsstring \<times> string" where
  "nameAndRepository a = (name a, repositoryId a)"

text \<open>
  An effect other than a ref update, or the update of a single request that
  creates \<open>refName\<close>: unlocked, with the all-zero expected prior object id.
\<close>

fun createOrRead :: "string \<Rightarrow> effect \<Rightarrow> bool" where
  "createOrRead refName (UpdateRefs reqs rid) =
     (case reqs of
        [q] \<Rightarrow> oldObjectId q = zeroObjectId \<and> upd_name q = refName
                 \<and> upd_repositoryId q = rid \<and> \<not> isLocked q
      | _ \<Rightarrow> False)"
| "createOrRead refName _ = True"

section \<open>Deriving the ref name\<close>

lemma default_regex:
  "newRegExp defaultSearchPattern defaultRegexFlags
     = Some \<lparr>toks = [TPiece Space Plus], global = True, ignoreCase = False\<rparr>"
  by code_simp

lemma default_replace:
  "replace ''My Release 1'' \<lparr>toks = [TPiece Space Plus], global = True, ignoreCase = False\<rparr>
     defaultReplacePattern = Some ''MyRelease1''"
  by code_simp

lemma getInputOrDefault_null:
  "looseNull (getInput C i) \<Longrightarrow> getInputOrDefault C i d = d"
  by (cases "getInput C i") (simp_all add: getInputOrDefault_def)

text \<open>
  C7. When \<open>tl.getInput\<close> gives no value for \<open>searchRegex\<close>, \<open>regexFlags\<close> and
  \<open>replacePattern\<close>, so that the three defaults \<open>\s+\<close>, \<open>g\<close> and the empty string
  apply, \<open>generateRef\<close> of release name "My Release 1" and prefix "refs/tags/"
  returns exactly "refs/tags/MyRelease1".
\<close>

theorem generateRef_default:
  assumes "looseNull (getInput C ''searchRegex'')"
    and "looseNull (getInput C ''regexFlags'')"
    and "looseNull (getInput C ''replacePattern'')"
  shows "fst (generateRef C ''My Release 1'' ''refs/tags/'' st) = Inr ''refs/tags/MyRelease1''"
  using assms
  by (simp add: generateRef_def getInputOrDefault_null default_regex default_replace Let_def)

theorem generateRef_default_witness:
  "looseNull (getInput (server None [] []) ''searchRegex'')
   \<and> looseNull (getInput (server None [] []) ''regexFlags'')
   \<and> looseNull (getInput (server None [] []) ''replacePattern'')
   \<and> fst (generateRef (server None [] []) ''My Release 1'' ''refs/tags/'' (init []))
       = Inr ''refs/tags/MyRelease1''"
  using generateRef_default [of "server None [] []" "init []"]
  by (simp add: server_def)

section \<open>Reconciling one artifact\<close>

text \<open>The two ways on from \<open>updateRef\<close> when the server answers the create request.\<close>

lemma processArtifact_created:
  assumes "updateRefs C [refUpdate a n] (repositoryId a) (world st) = (Inr (Val (r # rs)), w)"
    and "success r"
  shows "processArtifact C n a st =
           (Inr (), \<lparr>trace = trace st @ [processingLine n a,
                                UpdateRefs [refUpdate a n] (repositoryId a),
                                Debug ''Ref updated!''],
                     world = w\<rparr>)"
  using assms
  by (simp add: processArtifact_def updateRef_def Let_def called_def emit_def)

lemma processArtifact_refused:
  assumes "updateRefs C [refUpdate a n] (repositoryId a) (world st) = (Inr (Val (r # rs)), w)"
    and "\<not> success r"
  shows "processArtifact C n a st =
           (case doesRefExist C a n
                   \<lparr>trace = trace st @ [processingLine n a,
                                UpdateRefs [refUpdate a n] (repositoryId a)],
                     world = w\<rparr> of
              (Inl e, st2) \<Rightarrow> (Inl e, st2)
            | (Inr True, st2) \<Rightarrow> (Inr (), st2)
            | (Inr False, st2) \<Rightarrow>
                (Inr (), emit (SetResultFailed (failureMessage n r))
                           (emit (Error (permissionsPointer a))
                              (permissionError (updateStatus r) st2))))"
  using assms
  by (simp add: processArtifact_def updateRef_def Let_def called_def emit_def
           split: prod.splits sum.splits bool.splits)

text \<open>
  C1. Reconciling the same artifact, with commit \<open>c\<close>, twice in a row: when the
  server accepts the first create request, the first run ends at "Ref updated!"
  (Updated); when it then refuses the second create request and lists the ref at
  \<open>c\<close>, the second run ends at "Found matching ref for commit." and returns
  normally (AlreadyCorrect). Neither run logs the divergence warning or sets the
  task result to failed: the effects of both runs are exactly the ones listed.
\<close>

theorem reconcile_twice:
  assumes "commit a = Val c"
    and "updateRefs C [refUpdate a n] (repositoryId a) (world st) = (Inr (Val (r1 # rs1)), w1)"
    and "success r1"
    and "updateRefs C [refUpdate a n] (repositoryId a) w1 = (Inr (Val (r2 # rs2)), w2)"
    and "\<not> success r2"
    and "getRefs C (repositoryId a) w2 = (Inr (Val refs), w3)"
    and "find (\<lambda>x. ref_name x = n) refs = Some f"
    and "objectId f = c"
  shows "\<exists>st1 st2.
           processArtifact C n a st = (Inr (), st1)
           \<and> trace st1 = trace st @ [processingLine n a,
                                      UpdateRefs [refUpdate a n] (repositoryId a),
                                      Debug ''Ref updated!'']
           \<and> world st1 = w1
           \<and> processArtifact C n a st1 = (Inr (), st2)
           \<and> trace st2 = trace st1 @ [processingLine n a,
                                       UpdateRefs [refUpdate a n] (repositoryId a),
                                       GetRefs (repositoryId a),
                                       Debug ''Found matching ref for commit.'']
           \<and> world st2 = w3"
proof -
  let ?st1 = "\<lparr>trace = trace st @ [processingLine n a,
                                UpdateRefs [refUpdate a n] (repositoryId a),
                                Debug ''Ref updated!''],
               world = w1\<rparr>"
  have first: "processArtifact C n a st = (Inr (), ?st1)"
    using assms(2,3) by (rule processArtifact_created)
  have second: "processArtifact C n a ?st1 =
      (Inr (), \<lparr>trace = trace ?st1 @ [processingLine n a,
                                       UpdateRefs [refUpdate a n] (repositoryId a),
                                       GetRefs (repositoryId a),
                                       Debug ''Found matching ref for commit.''],
                 world = w3\<rparr>)"
    using assms(1,4-8)
    by (simp add: processArtifact_refused doesRefExist_def Let_def called_def emit_def)
  show ?thesis
    using first second by simp
qed

theorem reconcile_twice_witness:
  "\<exists>st1 st2.
     processArtifact (server None [] []) ''refs/tags/v1'' artifactA (init []) = (Inr (), st1)
     \<and> trace st1 = [processingLine ''refs/tags/v1'' artifactA,
                     UpdateRefs [refUpdate artifactA ''refs/tags/v1''] ''repoA'',
                     Debug ''Ref updated!'']
     \<and> world st1 = [\<lparr>ref_name = ''refs/tags/v1'', objectId = ''c1''\<rparr>]
     \<and> processArtifact (server None [] []) ''refs/tags/v1'' artifactA st1 = (Inr (), st2)
     \<and> trace st2 = trace st1 @ [processingLine ''refs/tags/v1'' artifactA,
                                 UpdateRefs [refUpdate artifactA ''refs/tags/v1''] ''repoA'',
                                 GetRefs ''repoA'',
                                 Debug ''Found matching ref for commit.'']
     \<and> world st2 = [\<lparr>ref_name = ''refs/tags/v1'', objectId = ''c1''\<rparr>]"
  using reconcile_twice [of artifactA "''c1''" "server None [] []" "''refs/tags/v1''" "init []"
      "\<lparr>success = True, updateStatus = OtherStatus 0, res_repositoryId = Val ''repoA'',
        res_newObjectId = Val ''c1''\<rparr>" "[]"
      "[\<lparr>ref_name = ''refs/tags/v1'', objectId = ''c1''\<rparr>]"
      "\<lparr>success = False, updateStatus = OtherStatus 2, res_repositoryId = Val ''repoA'',
        res_newObjectId = Val ''c1''\<rparr>" "[]"
      "[\<lparr>ref_name = ''refs/tags/v1'', objectId = ''c1''\<rparr>]"
      "[\<lparr>ref_name = ''refs/tags/v1'', objectId = ''c1''\<rparr>]"
      "[\<lparr>ref_name = ''refs/tags/v1'', objectId = ''c1''\<rparr>]"
      "\<lparr>ref_name = ''refs/tags/v1'', objectId = ''c1''\<rparr>"]
  by (simp add: server_def serverUpdateRefs_def artifactA_def refUpdate_def init_def)

text \<open>What \<open>doesRefExist\<close> returns, by the answer of \<open>getRefs\<close>.\<close>

lemma doesRefExist_diverged:
  assumes "getRefs C (repositoryId a) (world st) = (Inr (Val refs), w)"
    and "find (\<lambda>x. ref_name x = n) refs = Some f"
    and "Val (objectId f) \<noteq> commit a"
  shows "doesRefExist C a n st =
           (Inr False,
            \<lparr>trace = trace st @
               [GetRefs (repositoryId a),
                Warning (''Ref exists, but on different commit. New commit: '' @ str (commit a)
                         @ '' Old Commit: '' @ objectId f)],
             world = w\<rparr>)"
  using assms by (simp add: doesRefExist_def Let_def called_def emit_def)

lemma doesRefExist_absent:
  assumes "getRefs C (repositoryId a) (world st) = (Inr (Val refs), w)"
    and "find (\<lambda>x. ref_name x = n) refs = None"
  shows "doesRefExist C a n st =
           (Inr False, \<lparr>trace = trace st @ [GetRefs (repositoryId a)], world = w\<rparr>)"
  using assms by (simp add: doesRefExist_def Let_def called_def)

lemma doesRefExist_null:
  assumes "getRefs C (repositoryId a) (world st) = (Inr Null, w)"
  shows "doesRefExist C a n st =
           (Inr False, \<lparr>trace = trace st @ [GetRefs (repositoryId a)], world = w\<rparr>)"
  using assms by (simp add: doesRefExist_def Let_def called_def)

lemma decimal_2: "decimal 2 = ''2''"
  by code_simp
lemma decimal_8: "decimal 8 = ''8''"
  by code_simp
lemma decimal_9: "decimal 9 = ''9''"
  by code_simp

text \<open>
  C3, as stated, fails. The tag points at \<open>c0\<close>, the artifact's commit is \<open>c1\<close>
  and the server refuses the create request: after the divergence warning the
  reconciler goes on to the failure step and sets the task result to failed.
\<close>

theorem divergence_counterexample:
  "processArtifact (server None [] []) ''refs/tags/v1'' artifactA (init divergedRefs) =
     (Inr (),
      \<lparr>trace =
         [processingLine ''refs/tags/v1'' artifactA,
          UpdateRefs [refUpdate artifactA ''refs/tags/v1''] ''repoA'',
          GetRefs ''repoA'',
          Warning ''Ref exists, but on different commit. New commit: c1 Old Commit: c0'',
          Error ''If you need to change permissions see: _admin/_versioncontrol?_a=security&repositoryId=repoA'',
          SetResultFailed ''Unable to create ref: refs/tags/v1 UpdateStatus: 2 RepositoryId: repoA Commit: c1''],
       world = divergedRefs\<rparr>)"
  by (simp add: processArtifact_def updateRef_def doesRefExist_def server_def serverUpdateRefs_def
        artifactA_def divergedRefs_def refUpdate_def init_def called_def emit_def Let_def
        permissionError_def permissionsPointer_def failureMessage_def decimal_2)

text \<open>
  C3, amended. When the create request is refused and the ref exists at another
  commit, \<open>processArtifact\<close> logs the divergence warning and then treats the
  artifact like any other refused create: the permission line of the status (if
  any), the pointer to the permissions page, and the task result set to failed.
  It returns normally, and after the ref listing it calls the server no more: no
  request that could move the ref is sent.
\<close>

theorem divergence_fails_task:
  assumes "updateRefs C [refUpdate a n] (repositoryId a) (world st) = (Inr (Val (r # rs)), w1)"
    and "\<not> success r"
    and "getRefs C (repositoryId a) w1 = (Inr (Val refs), w2)"
    and "find (\<lambda>x. ref_name x = n) refs = Some f"
    and "Val (objectId f) \<noteq> commit a"
  shows "processArtifact C n a st =
           (Inr (),
            emit (SetResultFailed (failureMessage n r))
              (emit (Error (permissionsPointer a))
                 (permissionError (updateStatus r)
                    \<lparr>trace = trace st @
                       [processingLine n a,
                        UpdateRefs [refUpdate a n] (repositoryId a),
                        GetRefs (repositoryId a),
                        Warning (''Ref exists, but on different commit. New commit: ''
                                 @ str (commit a) @ '' Old Commit: '' @ objectId f)],
                      world = w2\<rparr>)))"
  using assms
  by (simp add: processArtifact_refused doesRefExist_diverged)

theorem divergence_fails_task_witness:
  "processArtifact (server (Some CreateBranchPermissionRequired) [] []) ''refs/tags/v1'' artifactA
       (init divergedRefs) =
     (Inr (),
      \<lparr>trace =
         [processingLine ''refs/tags/v1'' artifactA,
          UpdateRefs [refUpdate artifactA ''refs/tags/v1''] ''repoA'',
          GetRefs ''repoA'',
          Warning ''Ref exists, but on different commit. New commit: c1 Old Commit: c0'',
          Error ''You must grant the build account access to permission: Create Branch'',
          Error ''If you need to change permissions see: _admin/_versioncontrol?_a=security&repositoryId=repoA'',
          SetResultFailed ''Unable to create ref: refs/tags/v1 UpdateStatus: 8 RepositoryId: repoA Commit: c1''],
       world = divergedRefs\<rparr>)"
  using divergence_fails_task [of "server (Some CreateBranchPermissionRequired) [] []"
      artifactA "''refs/tags/v1''" "init divergedRefs"
      "\<lparr>success = False, updateStatus = CreateBranchPermissionRequired,
        res_repositoryId = Val ''repoA'', res_newObjectId = Val ''c1''\<rparr>" "[]"
      divergedRefs divergedRefs divergedRefs "\<lparr>ref_name = ''refs/tags/v1'', objectId = ''c0''\<rparr>"]
  by (simp add: server_def serverUpdateRefs_def artifactA_def divergedRefs_def refUpdate_def
        init_def emit_def permissionError_def permissionTemplate_def permissionsPointer_def
        failureMessage_def decimal_8)

text \<open>
  C8. When the create request is refused and \<open>doesRefExist\<close> finds no ref of that
  name at the artifact's commit, the effects that follow are: for status
  CreateBranchPermissionRequired the error naming "Create Branch", for
  CreateTagPermissionRequired the error naming "Create Tag" (for any other status
  no such line), then the error pointing at the repository's permissions page,
  then the failed task result.
\<close>

theorem permission_messages:
  assumes "updateRefs C [refUpdate a n] (repositoryId a) (world st) = (Inr (Val (r # rs)), w1)"
    and "\<not> success r"
    and "doesRefExist C a n
           \<lparr>trace = trace st @ [processingLine n a, UpdateRefs [refUpdate a n] (repositoryId a)],
            world = w1\<rparr> = (Inr False, st2)"
  shows "processArtifact C n a st =
           (Inr (),
            \<lparr>trace = trace st2 @
               (case updateStatus r of
                  CreateBranchPermissionRequired \<Rightarrow>
                    [Error ''You must grant the build account access to permission: Create Branch'']
                | CreateTagPermissionRequired \<Rightarrow>
                    [Error ''You must grant the build account access to permission: Create Tag'']
                | OtherStatus _ \<Rightarrow> []) @
               [Error (''If you need to change permissions see: _admin/_versioncontrol?_a=security&repositoryId=''
                       @ repositoryId a),
                SetResultFailed (failureMessage n r)],
             world = world st2\<rparr>)"
  using assms
  by (cases "updateStatus r")
     (simp_all add: processArtifact_refused permissionError_def permissionTemplate_def
        permissionsPointer_def emit_def)

theorem permission_messages_witness:
  "processArtifact (server (Some CreateBranchPermissionRequired) [] []) ''refs/tags/v1'' artifactA
       (init []) =
     (Inr (),
      \<lparr>trace =
         [processingLine ''refs/tags/v1'' artifactA,
          UpdateRefs [refUpdate artifactA ''refs/tags/v1''] ''repoA'',
          GetRefs ''repoA'',
          Error ''You must grant the build account access to permission: Create Branch'',
          Error ''If you need to change permissions see: _admin/_versioncontrol?_a=security&repositoryId=repoA'',
          SetResultFailed (failureMessage ''refs/tags/v1''
             \<lparr>success = False, updateStatus = CreateBranchPermissionRequired,
              res_repositoryId = Val ''repoA'', res_newObjectId = Val ''c1''\<rparr>)],
       world = []\<rparr>)
   \<and> processArtifact (server (Some CreateTagPermissionRequired) [] []) ''refs/tags/v1'' artifactA
       (init []) =
     (Inr (),
      \<lparr>trace =
         [processingLine ''refs/tags/v1'' artifactA,
          UpdateRefs [refUpdate artifactA ''refs/tags/v1''] ''repoA'',
          GetRefs ''repoA'',
          Error ''You must grant the build account access to permission: Create Tag'',
          Error ''If you need to change permissions see: _admin/_versioncontrol?_a=security&repositoryId=repoA'',
          SetResultFailed (failureMessage ''refs/tags/v1''
             \<lparr>success = False, updateStatus = CreateTagPermissionRequired,
              res_repositoryId = Val ''repoA'', res_newObjectId = Val ''c1''\<rparr>)],
       world = []\<rparr>)"
  using permission_messages [of "server (Some CreateBranchPermissionRequired) [] []"
      artifactA "''refs/tags/v1''" "init []"
      "\<lparr>success = False, updateStatus = CreateBranchPermissionRequired,
        res_repositoryId = Val ''repoA'', res_newObjectId = Val ''c1''\<rparr>" "[]" "[]"
      "\<lparr>trace = [processingLine ''refs/tags/v1'' artifactA,
          UpdateRefs [refUpdate artifactA ''refs/tags/v1''] ''repoA'', GetRefs ''repoA''],
        world = []\<rparr>"]
    permission_messages [of "server (Some CreateTagPermissionRequired) [] []"
      artifactA "''refs/tags/v1''" "init []"
      "\<lparr>success = False, updateStatus = CreateTagPermissionRequired,
        res_repositoryId = Val ''repoA'', res_newObjectId = Val ''c1''\<rparr>" "[]" "[]"
      "\<lparr>trace = [processingLine ''refs/tags/v1'' artifactA,
          UpdateRefs [refUpdate artifactA ''refs/tags/v1''] ''repoA'', GetRefs ''repoA''],
        world = []\<rparr>"]
  by (simp add: server_def serverUpdateRefs_def artifactA_def refUpdate_def init_def
        doesRefExist_def called_def Let_def)

text \<open>
  C10. When the create request is refused and \<open>getRefs\<close> answers \<open>null\<close>,
  \<open>doesRefExist\<close> returns false and throws nothing, and \<open>processArtifact\<close> goes
  on to the failure step. A server that differs only in answering with a listing
  that has no ref of that name (the empty listing among them) gives the same
  result and the same effects.
\<close>

theorem null_listing_is_no_ref:
  assumes "updateRefs C [refUpdate a n] (repositoryId a) (world st) = (Inr (Val (r # rs)), w1)"
    and "\<not> success r"
    and "getRefs C (repositoryId a) w1 = (Inr Null, w2)"
    and "updateRefs C' = updateRefs C"
    and "getRefs C' (repositoryId a) w1 = (Inr (Val refs), w2)"
    and "find (\<lambda>x. ref_name x = n) refs = None"
  shows "doesRefExist C a n \<lparr>trace = t, world = w1\<rparr> =
           (Inr False, \<lparr>trace = t @ [GetRefs (repositoryId a)], world = w2\<rparr>)
         \<and> processArtifact C n a st =
           (Inr (),
            emit (SetResultFailed (failureMessage n r))
              (emit (Error (permissionsPointer a))
                 (permissionError (updateStatus r)
                    \<lparr>trace = trace st @
                       [processingLine n a,
                        UpdateRefs [refUpdate a n] (repositoryId a),
                        GetRefs (repositoryId a)],
                      world = w2\<rparr>)))
         \<and> processArtifact C' n a st = processArtifact C n a st"
  using assms
  by (simp add: processArtifact_refused doesRefExist_null doesRefExist_absent)

theorem null_listing_is_no_ref_witness:
  "doesRefExist noListingServer artifactA ''refs/tags/v1'' \<lparr>trace = [], world = []\<rparr> =
           (Inr False, \<lparr>trace = [GetRefs ''repoA''], world = []\<rparr>)
   \<and> processArtifact noListingServer ''refs/tags/v1'' artifactA (init []) =
     (Inr (),
      \<lparr>trace =
         [processingLine ''refs/tags/v1'' artifactA,
          UpdateRefs [refUpdate artifactA ''refs/tags/v1''] ''repoA'',
          GetRefs ''repoA'',
          Error ''You must grant the build account access to permission: Create Tag'',
          Error ''If you need to change permissions see: _admin/_versioncontrol?_a=security&repositoryId=repoA'',
          SetResultFailed ''Unable to create ref: refs/tags/v1 UpdateStatus: 9 RepositoryId: repoA Commit: c1''],
       world = []\<rparr>)
   \<and> processArtifact (server (Some CreateTagPermissionRequired) [] []) ''refs/tags/v1'' artifactA
        (init [])
       = processArtifact noListingServer ''refs/tags/v1'' artifactA (init [])"
  using null_listing_is_no_ref [of noListingServer artifactA "''refs/tags/v1''" "init []"
      "\<lparr>success = False, updateStatus = CreateTagPermissionRequired,
        res_repositoryId = Val ''repoA'', res_newObjectId = Val ''c1''\<rparr>" "[]" "[]" "[]"
      "server (Some CreateTagPermissionRequired) [] []" "[]" "[]"]
  by (simp add: noListingServer_def server_def serverUpdateRefs_def artifactA_def refUpdate_def
        init_def emit_def permissionError_def permissionTemplate_def permissionsPointer_def
        failureMessage_def decimal_9)

section \<open>The requests sent to the server\<close>

lemma discovery_regexp: "newRegExp discoveryPattern ''gi'' = Some discoveryRegexp"
  by code_simp

lemma zeroObjectId_replicate: "zeroObjectId = replicate 40 (CHR ''0'')"
  by code_simp

text \<open>Every step of the task keeps the trace free of any other kind of ref update.\<close>

lemma emit_keeps:
  "createOrRead n e \<Longrightarrow> list_all (createOrRead n) (trace st)
     \<Longrightarrow> list_all (createOrRead n) (trace (emit e st))"
  by (simp add: emit_def)

lemma called_keeps:
  "createOrRead n e \<Longrightarrow> list_all (createOrRead n) (trace st)
     \<Longrightarrow> list_all (createOrRead n) (trace (called e w st))"
  by (simp add: called_def)

lemma updateRef_keeps:
  "list_all (createOrRead n) (trace st)
     \<Longrightarrow> list_all (createOrRead n) (trace (snd (updateRef C a n st)))"
  by (auto simp: updateRef_def Let_def refUpdate_def emit_keeps called_keeps
           split: prod.splits sum.splits nullable.splits list.splits)

lemma doesRefExist_keeps:
  "list_all (createOrRead n) (trace st)
     \<Longrightarrow> list_all (createOrRead n) (trace (snd (doesRefExist C a n st)))"
  by (auto simp: doesRefExist_def Let_def emit_keeps called_keeps
           split: prod.splits sum.splits nullable.splits option.splits)

lemma permissionError_keeps:
  "list_all (createOrRead n) (trace st)
     \<Longrightarrow> list_all (createOrRead n) (trace (permissionError s st))"
  by (cases s) (simp_all add: permissionError_def emit_keeps)

lemma processArtifact_keeps:
  assumes "list_all (createOrRead n) (trace st)"
  shows "list_all (createOrRead n) (trace (snd (processArtifact C n a st)))"
proof -
  have upd: "list_all (createOrRead n)
               (trace (snd (updateRef C a n (emit (processingLine n a) st))))"
    using assms by (simp add: updateRef_keeps emit_keeps processingLine_def)
  obtain r st1 where u: "updateRef C a n (emit (processingLine n a) st) = (r, st1)"
    by (cases "updateRef C a n (emit (processingLine n a) st)")
  with upd have st1: "list_all (createOrRead n) (trace st1)"
    by simp
  obtain b st2 where d: "doesRefExist C a n st1 = (b, st2)"
    by (cases "doesRefExist C a n st1")
  with doesRefExist_keeps [OF st1, of C a] have st2: "list_all (createOrRead n) (trace st2)"
    by simp
  show ?thesis
    using u d st1 st2
    by (auto simp: processArtifact_def Let_def emit_keeps permissionError_keeps
             split: sum.splits nullable.splits bool.splits)
qed

lemma processAll_keeps:
  "list_all (createOrRead n) (trace st)
     \<Longrightarrow> list_all (createOrRead n) (trace (snd (processAll C n as st)))"
proof (induction as arbitrary: st)
  case Nil
  then show ?case by simp
next
  case (Cons a as)
  obtain r st1 where p: "processArtifact C n a st = (r, st1)"
    by (cases "processArtifact C n a st")
  with processArtifact_keeps [OF Cons.prems, of C a]
  have "list_all (createOrRead n) (trace st1)" by simp
  with Cons.IH [of st1] p show ?case
    by (cases r) simp_all
qed

lemma getRepositoryId_keeps:
  "list_all (createOrRead n) (trace st)
     \<Longrightarrow> list_all (createOrRead n) (trace (snd (getRepositoryId C nm st)))"
  by (auto simp: getRepositoryId_def getRepositoryIdFromBuildNumber_def Let_def
                 emit_keeps called_keeps
           split: prod.splits sum.splits nullable.splits)

lemma scanVariables_keeps:
  "list_all (createOrRead n) (trace st)
     \<Longrightarrow> list_all (createOrRead n) (trace (snd (scanVariables C re vs li arts st)))"
proof (induction vs arbitrary: li arts st)
  case Nil
  then show ?case by simp
next
  case (Cons v vs)
  obtain vname vvalue where v: "v = (vname, vvalue)"
    by (cases v)
  obtain m li' where e: "exec re li vname = (m, li')"
    by (cases "exec re li vname")
  show ?case
  proof (cases m)
    case None
    with v e Cons.IH [of "emit (Debug (''No match for variable: '' @ vname)) st"] Cons.prems
    show ?thesis by (simp add: emit_keeps)
  next
    case (Some mt)
    let ?st1 = "emit (Debug (''Getting repository id for artifact: '' @ str (m_group1 mt))) st"
    obtain r st2 where g: "getRepositoryId C (m_group1 mt) ?st1 = (r, st2)"
      by (cases "getRepositoryId C (m_group1 mt) ?st1")
    with getRepositoryId_keeps [of n ?st1 C "m_group1 mt"] Cons.prems
    have st2: "list_all (createOrRead n) (trace st2)"
      by (simp add: emit_keeps)
    show ?thesis
      using v e Some g st2 Cons.IH Cons.prems
      by (auto simp: Let_def emit_keeps split: sum.splits nullable.splits)
  qed
qed

lemma run_keeps:
  "list_all (createOrRead n) (trace st) \<Longrightarrow> list_all (createOrRead n) (trace (run C n st))"
proof -
  assume inv: "list_all (createOrRead n) (trace st)"
  have disc: "list_all (createOrRead n) (trace (snd (getAllGitArtifacts C st)))"
    using inv by (simp add: getAllGitArtifacts_def discovery_regexp scanVariables_keeps)
  have body: "list_all (createOrRead n) (trace (snd (runBody C n st)))"
  proof (cases "connect C")
    case (Some e)
    with inv show ?thesis by (simp add: runBody_def)
  next
    case None
    obtain r st1 where g: "getAllGitArtifacts C st = (r, st1)"
      by (cases "getAllGitArtifacts C st")
    with disc have "list_all (createOrRead n) (trace st1)" by simp
    with None g show ?thesis
      by (cases r) (simp_all add: runBody_def processAll_keeps emit_keeps)
  qed
  obtain r st' where b: "runBody C n st = (r, st')"
    by (cases "runBody C n st")
  with body show ?thesis
    by (cases r) (simp_all add: run_def emit_keeps)
qed

text \<open>
  C2. Every \<open>updateRefs\<close> call of a run, whatever the configuration and whatever
  the collaborators answer, carries exactly one request, and its expected prior
  object id is the string of 40 zeros: the task only asks to create a ref.
\<close>

theorem only_create_requests:
  assumes "UpdateRefs reqs rid \<in> set (trace (run C n (init w)))"
    and "q \<in> set reqs"
  shows "oldObjectId q = replicate 40 (CHR ''0'') \<and> reqs = [q]"
proof -
  have "list_all (createOrRead n) (trace (run C n (init w)))"
    by (rule run_keeps) (simp add: init_def)
  with assms(1) have "createOrRead n (UpdateRefs reqs rid)"
    unfolding list_all_iff by blast
  with assms(2) show ?thesis
    by (cases reqs; cases "tl reqs") (auto simp: zeroObjectId_replicate)
qed

lemma both_resolved_trace:
  "UpdateRefs [refUpdate \<lparr>name = Val ''B'', commit = Val ''c2'', repositoryId = ''repoB''\<rparr>
                 ''refs/tags/v1''] ''repoB''
     \<in> set (trace (run (server None twoArtifacts bothResolved) ''refs/tags/v1'' (init [])))"
  by code_simp

theorem only_create_requests_witness:
  "UpdateRefs [refUpdate \<lparr>name = Val ''B'', commit = Val ''c2'', repositoryId = ''repoB''\<rparr>
                 ''refs/tags/v1''] ''repoB''
     \<in> set (trace (run (server None twoArtifacts bothResolved) ''refs/tags/v1'' (init [])))
   \<and> oldObjectId (refUpdate \<lparr>name = Val ''B'', commit = Val ''c2'', repositoryId = ''repoB''\<rparr>
                    ''refs/tags/v1'') = replicate 40 (CHR ''0'')"
  using both_resolved_trace
    only_create_requests [OF both_resolved_trace,
      of "refUpdate \<lparr>name = Val ''B'', commit = Val ''c2'', repositoryId = ''repoB''\<rparr> ''refs/tags/v1''"]
  by simp

section \<open>Discovery\<close>

text \<open>An artifact once pushed stays in the array.\<close>

lemma scanVariables_extends:
  "scanVariables C re vs li arts st = (Inr out, st') \<Longrightarrow> set arts \<subseteq> set out"
proof (induction vs arbitrary: li arts st)
  case Nil
  then show ?case by simp
next
  case (Cons v vs)
  obtain vname vvalue where v: "v = (vname, vvalue)"
    by (cases v)
  from Cons.prems v show ?case
    by (auto simp: Let_def split: prod.splits option.splits if_splits sum.splits nullable.splits
             dest!: Cons.IH)
qed

text \<open>Discovery reads the commit variables for the \<open>commit\<close> field only.\<close>

lemma not_commit_keys:
  "\<not> isCommitKey (x @ ''.REPOSITORY_ID'')" "\<not> isCommitKey (x @ ''.BUILDID'')"
  by (simp_all add: isCommitKey_def)

lemma commit_key: "isCommitKey (x @ ''.SOURCEVERSION'')"
  by (simp add: isCommitKey_def)

lemma fromBuildNumber_withCommits:
  "getRepositoryIdFromBuildNumber (withCommits g C) nm st
     = getRepositoryIdFromBuildNumber C nm st"
  using not_commit_keys(2) [of "''RELEASE.ARTIFACTS.'' @ str nm"]
  by (simp add: getRepositoryIdFromBuildNumber_def withCommits_def Let_def)

lemma getRepositoryId_withCommits:
  "getRepositoryId (withCommits g C) nm st = getRepositoryId C nm st"
proof -
  have "getVariable (withCommits g C) (''RELEASE.ARTIFACTS.'' @ str nm @ ''.REPOSITORY_ID'')
        = getVariable C (''RELEASE.ARTIFACTS.'' @ str nm @ ''.REPOSITORY_ID'')"
    using not_commit_keys(1) [of "''RELEASE.ARTIFACTS.'' @ str nm"]
    by (simp add: withCommits_def)
  then show ?thesis
    by (simp only: getRepositoryId_def fromBuildNumber_withCommits)
qed

lemma scanVariables_withCommits:
  "map nameAndRepository arts' = map nameAndRepository arts
   \<Longrightarrow> map_sum id (map nameAndRepository) (fst (scanVariables (withCommits g C) re vs li arts' st))
       = map_sum id (map nameAndRepository) (fst (scanVariables C re vs li arts st))
     \<and> snd (scanVariables (withCommits g C) re vs li arts' st)
       = snd (scanVariables C re vs li arts st)"
proof (induction vs arbitrary: li arts arts' st)
  case Nil
  then show ?case by simp
next
  case (Cons v vs)
  obtain vname vvalue where v: "v = (vname, vvalue)"
    by (cases v)
  obtain m li' where e: "exec re li vname = (m, li')"
    by (cases "exec re li vname")
  show ?case
  proof (cases m)
    case None
    with v e Cons.IH [OF Cons.prems] show ?thesis by simp
  next
    case (Some mt)
    let ?st1 = "emit (Debug (''Getting repository id for artifact: '' @ str (m_group1 mt))) st"
    obtain r st2 where g: "getRepositoryId C (m_group1 mt) ?st1 = (r, st2)"
      by (cases "getRepositoryId C (m_group1 mt) ?st1")
    show ?thesis
    proof (cases "vvalue \<noteq> Val ''TfsGit'' \<and> vvalue \<noteq> Val ''Git''")
      case True
      with v e Some Cons.IH [OF Cons.prems] show ?thesis by simp
    next
      case False
      show ?thesis
      proof (cases r)
        case (Inl err)
        with v e Some g False show ?thesis
          by (auto simp add: getRepositoryId_withCommits Let_def)
      next
        case (Inr rid)
        show ?thesis
        proof (cases rid)
          case (Val repoId)
          have "map nameAndRepository (arts' @ [\<lparr>name = m_group1 mt, commit = c', repositoryId = repoId\<rparr>])
                = map nameAndRepository (arts @ [\<lparr>name = m_group1 mt, commit = c, repositoryId = repoId\<rparr>])"
            for c c'
            using Cons.prems by (simp add: nameAndRepository_def [abs_def])
          from Cons.IH [OF this] v e Some g False Inr Val show ?thesis
            by (auto simp add: getRepositoryId_withCommits Let_def)
        next
          case Undefined
          with v e Some g False Inr Cons.IH [OF Cons.prems] show ?thesis
            by (auto simp add: getRepositoryId_withCommits Let_def)
        next
          case Null
          with v e Some g False Inr Cons.IH [OF Cons.prems] show ?thesis
            by (auto simp add: getRepositoryId_withCommits Let_def)
        qed
      qed
    qed
  qed
qed

lemma getVariables_withCommits: "getVariables (withCommits g C) = getVariables C"
  by (simp add: withCommits_def)

lemma discovery_ignores_commits:
  "map_sum id (map nameAndRepository) (fst (getAllGitArtifacts (withCommits g C) st))
     = map_sum id (map nameAndRepository) (fst (getAllGitArtifacts C st))
   \<and> snd (getAllGitArtifacts (withCommits g C) st) = snd (getAllGitArtifacts C st)"
proof (cases "newRegExp discoveryPattern ''gi''")
  case None
  then show ?thesis by (simp add: getAllGitArtifacts_def)
next
  case (Some re)
  then show ?thesis
    using scanVariables_withCommits [of "[]" "[]" g C re "getVariables C" 0 st]
    by (simp add: getAllGitArtifacts_def getVariables_withCommits)
qed

text \<open>
  One iteration of the scan: when \<open>regexp.exec\<close> matches the variable's name at the
  current \<open>lastIndex\<close>, its value is "Git" or "TfsGit" and \<open>getRepositoryId\<close> yields
  a repository id, the artifact is pushed with whatever \<open>tl.getVariable\<close> returns
  for its \<open>SOURCEVERSION\<close>, and it is in the array the scan returns. And whatever
  the commit variables hold, discovery returns the same artifacts, commits apart,
  with the same effects.
\<close>

lemma commit_not_checked:
  assumes "exec regexp lastIndex vname = (Some m, lastIndex')"
    and "vvalue = Val ''Git'' \<or> vvalue = Val ''TfsGit''"
    and "getRepositoryId C (m_group1 m)
           (emit (Debug (''Getting repository id for artifact: '' @ str (m_group1 m))) st)
         = (Inr (Val repoId), st2)"
  shows "scanVariables C regexp ((vname, vvalue) # vs) lastIndex arts st
         = scanVariables C regexp vs lastIndex'
             (arts @ [\<lparr>name = m_group1 m,
                        commit = getVariable C
                          (''RELEASE.ARTIFACTS.'' @ str (m_group1 m) @ ''.SOURCEVERSION''),
                        repositoryId = repoId\<rparr>]) st2
         \<and> (\<forall>out st'.
               scanVariables C regexp ((vname, vvalue) # vs) lastIndex arts st = (Inr out, st')
               \<longrightarrow> \<lparr>name = m_group1 m,
                      commit = getVariable C
                        (''RELEASE.ARTIFACTS.'' @ str (m_group1 m) @ ''.SOURCEVERSION''),
                      repositoryId = repoId\<rparr> \<in> set out)
         \<and> map_sum id (map nameAndRepository) (fst (getAllGitArtifacts (withCommits g C) st0))
             = map_sum id (map nameAndRepository) (fst (getAllGitArtifacts C st0))
         \<and> snd (getAllGitArtifacts (withCommits g C) st0) = snd (getAllGitArtifacts C st0)"
proof -
  let ?d = "\<lparr>name = m_group1 m,
              commit = getVariable C
                (''RELEASE.ARTIFACTS.'' @ str (m_group1 m) @ ''.SOURCEVERSION''),
              repositoryId = repoId\<rparr>"
  have step: "scanVariables C regexp ((vname, vvalue) # vs) lastIndex arts st
              = scanVariables C regexp vs lastIndex' (arts @ [?d]) st2"
    using assms by (auto simp: Let_def)
  have "?d \<in> set out"
    if "scanVariables C regexp ((vname, vvalue) # vs) lastIndex arts st = (Inr out, st')"
    for out st'
    using that step scanVariables_extends [of C regexp vs lastIndex' "arts @ [?d]" st2 out st']
    by auto
  with step discovery_ignores_commits [of g C st0] show ?thesis by blast
qed

lemma exec_A:
  "exec discoveryRegexp 0 ''RELEASE.ARTIFACTS.A.REPOSITORY.PROVIDER''
     = (Some \<lparr>m_index = 0, m_group1 = Val ''A''\<rparr>, 39)"
  by code_simp

lemma noCommit_repositoryId:
  "getRepositoryId noCommit (Val ''A'') st = (Inr (Val ''repoA''), st)"
  by (simp add: getRepositoryId_def noCommit_def server_def fromList_def)

lemma noCommit_commit:
  "getVariable noCommit ''RELEASE.ARTIFACTS.A.SOURCEVERSION'' = Undefined"
  by (simp add: noCommit_def server_def fromList_def)

lemma commit_not_checked_at_noCommit:
  "scanVariables noCommit discoveryRegexp
       [(''RELEASE.ARTIFACTS.A.REPOSITORY.PROVIDER'', Val ''TfsGit'')] 0 [] (init [])
     = (Inr [\<lparr>name = Val ''A'', commit = Undefined, repositoryId = ''repoA''\<rparr>],
        \<lparr>trace = [Debug ''Getting repository id for artifact: A''], world = []\<rparr>)
   \<and> fst (getAllGitArtifacts noCommit (init []))
       = Inr [\<lparr>name = Val ''A'', commit = Undefined, repositoryId = ''repoA''\<rparr>]
   \<and> fst (getAllGitArtifacts (withCommits (\<lambda>k. Val []) noCommit) (init []))
       = Inr [\<lparr>name = Val ''A'', commit = Val [], repositoryId = ''repoA''\<rparr>]"
proof -
  have scan: "scanVariables noCommit discoveryRegexp
       [(''RELEASE.ARTIFACTS.A.REPOSITORY.PROVIDER'', Val ''TfsGit'')] 0 [] (init [])
     = (Inr [\<lparr>name = Val ''A'', commit = Undefined, repositoryId = ''repoA''\<rparr>],
        \<lparr>trace = [Debug ''Getting repository id for artifact: A''], world = []\<rparr>)"
    using commit_not_checked [of discoveryRegexp 0 "''RELEASE.ARTIFACTS.A.REPOSITORY.PROVIDER''"
        "\<lparr>m_index = 0, m_group1 = Val ''A''\<rparr>" 39 "Val ''TfsGit''" noCommit "init []" "''repoA''"
        "emit (Debug ''Getting repository id for artifact: A'') (init [])" "[]" "[]"]
    by (simp add: exec_A noCommit_repositoryId noCommit_commit emit_def init_def)
  have missing: "fst (getAllGitArtifacts noCommit (init []))
       = Inr [\<lparr>name = Val ''A'', commit = Undefined, repositoryId = ''repoA''\<rparr>]"
    by code_simp
  have empty: "fst (getAllGitArtifacts (withCommits (\<lambda>k. Val []) noCommit) (init []))
       = Inr [\<lparr>name = Val ''A'', commit = Val [], repositoryId = ''repoA''\<rparr>]"
    by code_simp
  from scan missing empty show ?thesis
    by (intro conjI)
qed

text \<open>
  The discovery pattern on the name of a provider variable, from \<open>lastIndex = 0\<close>:
  the greedy group gives characters back until the 20 characters of the tail are
  left, so the artifact name is captured whole, and \<open>lastIndex\<close> moves to the end
  of the name.
\<close>

lemma bt_fixed_short:
  "length s < length cs \<Longrightarrow> bt ic (map (\<lambda>c. TPiece c One) cs) s n opened cap = None"
proof (induction cs arbitrary: s n)
  case Nil
  then show ?case by simp
next
  case (Cons c cs)
  then show ?case by (cases s) simp_all
qed

lemma bt_star_short:
  "length s < length cs
     \<Longrightarrow> bt ic (TPiece c Star # TClose # map (\<lambda>c. TPiece c One) cs) s n opened cap = None"
proof (induction s arbitrary: n)
  case Nil
  then show ?case by (simp add: bt_fixed_short)
next
  case (Cons x xs)
  then show ?case by (simp add: bt_fixed_short)
qed

lemma bt_star_greedy:
  assumes "length rest = length cs"
    and "\<forall>x \<in> set N. accepts ic c x"
    and "bt ic (TClose # map (\<lambda>c. TPiece c One) cs) rest (n + length N) opened cap = Some res"
  shows "bt ic (TPiece c Star # TClose # map (\<lambda>c. TPiece c One) cs) (N @ rest) n opened cap
           = Some res"
  using assms
proof (induction N arbitrary: n)
  case Nil
  then show ?case
    by (cases rest) (simp_all add: bt_star_short)
next
  case (Cons y N)
  from Cons.prems have "bt ic (TPiece c Star # TClose # map (\<lambda>c. TPiece c One) cs)
                           (N @ rest) (Suc n) opened cap = Some res"
    by (intro Cons.IH) simp_all
  with Cons.prems show ?case by simp
qed

lemma accepts_self: "\<not> isLineTerminator c \<Longrightarrow> accepts ic (wild c) c"
  by (auto simp: wild_def)

lemma bt_literal:
  "\<forall>c \<in> set w. \<not> isLineTerminator c
     \<Longrightarrow> bt ic (map (\<lambda>c. TPiece c One) (map wild w) @ rest) (w @ s) n opened cap
         = bt ic rest s (n + length w) opened cap"
  by (induction w arbitrary: n) (simp_all add: accepts_self)

lemma discovery_toks:
  "toks discoveryRegexp =
     map (\<lambda>c. TPiece c One) (map wild ''RELEASE.ARTIFACTS.'')
       @ TOpen # TPiece AnyChar Star # TClose
       # map (\<lambda>c. TPiece c One) (map wild ''.REPOSITORY.PROVIDER'')"
  by (simp add: discoveryRegexp_def wild_def)

lemma no_line_terminators:
  "\<forall>c \<in> set ''RELEASE.ARTIFACTS.''. \<not> isLineTerminator c"
  "\<forall>c \<in> set ''.REPOSITORY.PROVIDER''. \<not> isLineTerminator c"
  by (simp_all add: isLineTerminator_def)

lemma bt_discovery:
  assumes "\<forall>c \<in> set N. \<not> isLineTerminator c"
  shows "bt True (toks discoveryRegexp)
           (''RELEASE.ARTIFACTS.'' @ N @ ''.REPOSITORY.PROVIDER'') 0 None None
         = Some (38 + length N, Some (18, 18 + length N))"
proof -
  let ?tail = "map (\<lambda>c. TPiece c One) (map wild ''.REPOSITORY.PROVIDER'')"
  have len: "length ''RELEASE.ARTIFACTS.'' = 18" "length ''.REPOSITORY.PROVIDER'' = 20"
    by simp_all
  have "bt True (TClose # ?tail @ []) (''.REPOSITORY.PROVIDER'' @ [])
          (18 + length N) (Some 18) None
        = bt True (?tail @ []) (''.REPOSITORY.PROVIDER'' @ [])
            (18 + length N) (Some 18) (Some (18, 18 + length N))"
    by (simp only: bt.simps option.case)
  also have "\<dots> = bt True [] [] (18 + length N + length ''.REPOSITORY.PROVIDER'') (Some 18)
                     (Some (18, 18 + length N))"
    by (rule bt_literal [OF no_line_terminators(2)])
  also have "\<dots> = Some (38 + length N, Some (18, 18 + length N))"
    by (simp only: len bt.simps) simp
  finally have tail: "bt True (TClose # ?tail) ''.REPOSITORY.PROVIDER''
                        (18 + length N) (Some 18) None
                      = Some (38 + length N, Some (18, 18 + length N))"
    by (simp only: append_Nil2)
  have star: "bt True (TPiece AnyChar Star # TClose # ?tail)
                (N @ ''.REPOSITORY.PROVIDER'') 18 (Some 18) None
              = Some (38 + length N, Some (18, 18 + length N))"
  proof (rule bt_star_greedy)
    show "length ''.REPOSITORY.PROVIDER'' = length (map wild ''.REPOSITORY.PROVIDER'')"
      by (simp only: length_map)
    show "\<forall>x \<in> set N. accepts True AnyChar x"
      using assms by simp
    show "bt True (TClose # ?tail) ''.REPOSITORY.PROVIDER'' (18 + length N) (Some 18) None
            = Some (38 + length N, Some (18, 18 + length N))"
      by (rule tail)
  qed
  have "bt True (toks discoveryRegexp)
           (''RELEASE.ARTIFACTS.'' @ N @ ''.REPOSITORY.PROVIDER'') 0 None None
        = bt True (TOpen # TPiece AnyChar Star # TClose # ?tail)
             (N @ ''.REPOSITORY.PROVIDER'') (0 + length ''RELEASE.ARTIFACTS.'') None None"
    unfolding discovery_toks
    by (rule bt_literal [OF no_line_terminators(1)])
  also have "\<dots> = bt True (TPiece AnyChar Star # TClose # ?tail)
                     (N @ ''.REPOSITORY.PROVIDER'') 18 (Some 18) None"
    by (simp only: len bt.simps add_0)
  finally show ?thesis
    by (simp only: star)
qed

lemma exec_discovery:
  assumes "\<forall>c \<in> set N. \<not> isLineTerminator c"
  shows "exec discoveryRegexp 0 (''RELEASE.ARTIFACTS.'' @ N @ ''.REPOSITORY.PROVIDER'')
         = (Some \<lparr>m_index = 0, m_group1 = Val N\<rparr>, 38 + length N)"
proof -
  have "search True (toks discoveryRegexp)
          (''RELEASE.ARTIFACTS.'' @ N @ ''.REPOSITORY.PROVIDER'')
        = Some (0, 38 + length N, Some (18, 18 + length N))"
    using bt_discovery [OF assms] by simp
  moreover have "global discoveryRegexp" "ignoreCase discoveryRegexp"
    by (simp_all add: discoveryRegexp_def)
  ultimately show ?thesis
    by (simp add: exec_def)
qed

lemma first_variable_discovered:
  assumes "\<forall>c \<in> set N. \<not> isLineTerminator c"
    and "v = Val ''Git'' \<or> v = Val ''TfsGit''"
    and "getVariable C (''RELEASE.ARTIFACTS.'' @ N @ ''.REPOSITORY_ID'') = Val rid"
    and "rid \<noteq> []"
  shows "scanVariables C discoveryRegexp
           ((''RELEASE.ARTIFACTS.'' @ N @ ''.REPOSITORY.PROVIDER'', v) # vs) 0 arts st
         = scanVariables C discoveryRegexp vs (38 + length N)
             (arts @ [\<lparr>name = Val N,
                        commit = getVariable C (''RELEASE.ARTIFACTS.'' @ N @ ''.SOURCEVERSION''),
                        repositoryId = rid\<rparr>])
             (emit (Debug (''Getting repository id for artifact: '' @ N)) st)"
  using exec_discovery [OF assms(1)] assms(2-4)
  by (auto simp: getRepositoryId_def Let_def)

text \<open>
  C6, at a failing input. The provider variables of artifacts A and B follow one
  another and both artifacts have a repository id and a commit. The match on
  A's variable leaves \<open>lastIndex = 39\<close>, the search in B's variable starts there
  and fails, and only A is returned.
\<close>

theorem adjacent_artifact_missed:
  "getAllGitArtifacts (server None adjacentArtifacts bothResolved) (init []) =
     (Inr [\<lparr>name = Val ''A'', commit = Val ''c1'', repositoryId = ''repoA''\<rparr>],
      \<lparr>trace =
         [Debug ''Getting repository id for artifact: A'',
          Debug ''No match for variable: RELEASE.ARTIFACTS.B.REPOSITORY.PROVIDER''],
       world = []\<rparr>)"
  by code_simp

text \<open>
  C9, at a failing input. Artifacts A and B have a recognised provider and a
  repository id, and no \<open>SOURCEVERSION\<close>; their provider variables follow one
  another. The name of B's variable matches the discovery pattern (searched from
  index 0, as a regular expression without the \<open>g\<close> flag would) and B's repository
  id resolves, yet the scan, where \<open>lastIndex\<close> is 39 after A's match, emits A only.
  A is emitted with its commit \<open>undefined\<close>: the commit is not what keeps B out.
\<close>

theorem matching_key_not_emitted:
  "fst (exec discoveryRegexp 0 ''RELEASE.ARTIFACTS.B.REPOSITORY.PROVIDER'')
     = Some \<lparr>m_index = 0, m_group1 = Val ''B''\<rparr>
   \<and> snd (adjacentArtifacts ! 1) = Val ''Git''
   \<and> fst (getRepositoryId adjacentNoCommits (Val ''B'') (init [])) = Inr (Val ''repoB'')
   \<and> getAllGitArtifacts adjacentNoCommits (init []) =
       (Inr [\<lparr>name = Val ''A'', commit = Undefined, repositoryId = ''repoA''\<rparr>],
        \<lparr>trace =
           [Debug ''Getting repository id for artifact: A'',
            Debug ''No match for variable: RELEASE.ARTIFACTS.B.REPOSITORY.PROVIDER''],
         world = []\<rparr>)"
  by code_simp

text \<open>
  Resolving the repository id when \<open>REPOSITORY_ID\<close> gives none: a \<open>BUILDID\<close> that
  is \<open>null\<close> or empty fails the task and drops the artifact; one that is
  \<open>undefined\<close> passes the test \<open>=== null\<close> and is sent to the build service.
\<close>

lemma empty_buildid_soft_failure:
  assumes "looseNull (getVariable C (''RELEASE.ARTIFACTS.'' @ str nm @ ''.REPOSITORY_ID''))
           \<or> getVariable C (''RELEASE.ARTIFACTS.'' @ str nm @ ''.REPOSITORY_ID'') = Val []"
    and "getVariable C (''RELEASE.ARTIFACTS.'' @ str nm @ ''.BUILDID'') = Null
         \<or> getVariable C (''RELEASE.ARTIFACTS.'' @ str nm @ ''.BUILDID'') = Val []"
  shows "getRepositoryId C nm st =
           (Inr Null,
            emit (SetResultFailed (''Unable to get build id from variable: ''
                    @ ''RELEASE.ARTIFACTS.'' @ str nm @ ''.BUILDID'')) st)"
  using assms by (auto simp: getRepositoryId_def getRepositoryIdFromBuildNumber_def Let_def)

lemma absent_buildid_queries_build:
  assumes "looseNull (getVariable C (''RELEASE.ARTIFACTS.'' @ str nm @ ''.REPOSITORY_ID''))
           \<or> getVariable C (''RELEASE.ARTIFACTS.'' @ str nm @ ''.REPOSITORY_ID'') = Val []"
    and "getVariable C (''RELEASE.ARTIFACTS.'' @ str nm @ ''.BUILDID'') = Undefined"
  shows "take (Suc (length (trace st))) (trace (snd (getRepositoryId C nm st)))
           = trace st @ [GetBuild Undefined]"
  using assms
  by (auto simp: getRepositoryId_def getRepositoryIdFromBuildNumber_def Let_def called_def emit_def
           split: prod.splits sum.splits nullable.splits)

section \<open>The whole run\<close>

text \<open>
  C5, at a failing input. Artifact A has neither \<open>REPOSITORY_ID\<close> nor \<open>BUILDID\<close>
  set, artifact B has a repository id and a commit, and the build service rejects
  the build number it is asked for. The rejection leaves the scan: B is never
  discovered and no ref update is sent.
\<close>

theorem absent_buildid_aborts_run:
  "run (server None twoArtifacts onlyBResolved) ''refs/tags/v1'' (init []) =
     \<lparr>trace =
        [Debug ''Getting repository id for artifact: A'',
         GetBuild Undefined,
         SetResultFailed ''Build not found''],
      world = []\<rparr>"
  by code_simp

text \<open>
  C4, at a failing input. Two artifacts are discovered and \<open>updateRefs\<close> answers
  with an empty array. After the warning \<open>updateRef\<close> returns \<open>null\<close>, reading
  \<open>updateResult.success\<close> throws, and the \<open>catch\<close> of \<open>run\<close> fails the task: artifact
  B is never processed.
\<close>

theorem no_result_aborts_run:
  "run silentServer ''refs/tags/v1'' (init []) =
     \<lparr>trace =
        [Debug ''Getting repository id for artifact: A'',
         Debug ''No match for variable: RELEASE.ARTIFACTS.A.SOURCEVERSION'',
         Debug ''Getting repository id for artifact: B'',
         Debug ''No match for variable: RELEASE.ARTIFACTS.B.SOURCEVERSION'',
         processingLine ''refs/tags/v1''
           \<lparr>name = Val ''A'', commit = Val ''c1'', repositoryId = ''repoA''\<rparr>,
         UpdateRefs [refUpdate \<lparr>name = Val ''A'', commit = Val ''c1'', repositoryId = ''repoA''\<rparr>
                       ''refs/tags/v1''] ''repoA'',
         Warning ''No update result returned from updateRefs'',
         SetResultFailed (message (nullRead ''success'' ''null''))],
      world = []\<rparr>"
  by code_simp

end
